theory Spec2Isabelle
  imports Main "HOL-Library.Word"
begin

section \<open>The gumath extension for Ruby: data\<close>

text \<open>
  The development follows \<^verbatim>\<open>ext/ruby_gumath/ruby_gumath.c\<close>. The file calls into
  libndtypes, libxnd, libgumath and the Ruby C API; their headers are not part of the
  repository's sources, so the types they declare are modelled below and the functions
  they export are parameters of the model (the record \<open>extern\<close>).
\<close>

text \<open>
  Modelled from the spec: the type descriptor \<^verbatim>\<open>ndt_t\<close> (declared in ndtypes.h). The
  spec's data model says that every output type is either concrete or abstract, a two-state
  tag; \<open>ndt_id\<close> stands for the identity of the descriptor (the pointer the C code holds).
\<close>

datatype access = Abstract | Concrete

record ndt_t =
  ndt_id :: nat
  access :: access

definition ndt_is_concrete :: "ndt_t \<Rightarrow> bool" where
  "ndt_is_concrete t = (access t = Concrete)"

definition ndt_is_abstract :: "ndt_t \<Rightarrow> bool" where
  "ndt_is_abstract t = (access t = Abstract)"

text \<open>
  Modelled from the spec: the buffer \<^verbatim>\<open>xnd_t\<close> (declared in xnd.h), of which the engine
  reads the type descriptor and the data pointer. The C code copies these structs by value
  into its local \<^verbatim>\<open>stack\<close> array and assigns the field \<^verbatim>\<open>type\<close>.
\<close>

record xnd_t =
  type :: ndt_t
  ptr :: nat

text \<open>
  Modelled from the spec: Ruby's \<^verbatim>\<open>VALUE\<close> (declared in ruby.h), as far as this file
  produces and tests it: the null pointer the C code compares with, \<^verbatim>\<open>Qnil\<close>, a heap
  object by identity, an Integer (\<^verbatim>\<open>INT2NUM\<close>) and an Array
  (\<^verbatim>\<open>array_new\<close>, \<^verbatim>\<open>rb_ary_store\<close>).
\<close>

datatype VALUE = NULL | Qnil | Object nat | Fixnum int | Array "VALUE list"

text \<open>
  Modelled from the spec: \<^verbatim>\<open>INT2NUM\<close> (ruby.h) turns a C \<^verbatim>\<open>int\<close> into a Ruby
  Integer of the same value.
\<close>

definition INT2NUM :: "32 word \<Rightarrow> VALUE" where
  "INT2NUM v = Fixnum (sint v)"

text \<open>
  Modelled from the spec: the kernel table \<^verbatim>\<open>gm_tbl_t\<close> (declared in gumath.h), an
  ordered collection of kernel entries, each with a name, an input signature and a function
  pointer.
\<close>

record KernelEntry =
  name :: string
  input_signature :: string
  function_pointer :: nat

type_synonym gm_tbl_t = "KernelEntry list"

text \<open>
  Modelled from the spec: the error context \<^verbatim>\<open>ndt_context_t\<close> (ndtypes.h) that the
  library calls fill in on failure, and the kernel handle \<^verbatim>\<open>gm_kernel_t\<close> (gumath.h),
  whose field \<^verbatim>\<open>set\<close> is the null pointer when selection failed.
\<close>

record ndt_context_t =
  err :: nat
  msg :: string

record gm_kernel_t =
  kernel_set :: "nat option"

text \<open>
  Modelled from the spec: the per-call \<^verbatim>\<open>ndt_apply_spec_t\<close> (ndtypes.h), with the
  fields the call reads. The two arrays have a fixed capacity in C and are read at the
  indices below their counts; they are index functions here. The counts are C integers that
  the call only compares with zero and uses as loop bounds; they are naturals here.
\<close>

record ndt_apply_spec_t =
  flags :: "32 word"
  nout :: nat
  nbroadcast :: nat
  outer_dims :: int
  out :: "nat \<Rightarrow> ndt_t"
  broadcast :: "nat \<Rightarrow> ndt_t"

text \<open>The struct \<^verbatim>\<open>GufuncObject\<close> (lines 68-71) and the class globals (lines 40-49).\<close>

record GufuncObject =
  table :: gm_tbl_t
  name :: string

record globals =
  table :: gm_tbl_t
  max_threads :: "64 word"

text \<open>
  The ways the call ends without returning a value. Three are the exceptions the file
  raises: \<^verbatim>\<open>rb_raise(rb_eArgError, ...)\<close>, \<^verbatim>\<open>rb_raise(rb_eNoMemError, ...)\<close>, and
  the error of a library call, which \<^verbatim>\<open>seterr(&ctx); raise_error();\<close> turns into a
  Ruby exception from the context. The fourth, \<open>stack_overrun\<close>, is no exception: the
  local arrays \<^verbatim>\<open>stack\<close> and \<^verbatim>\<open>result\<close> have \<^verbatim>\<open>NDT_MAX_ARGS\<close> slots and the
  code writes slot \<^verbatim>\<open>nin+i\<close> without a test; \<open>stack_overrun k\<close> marks the write to a
  slot \<open>k\<close> past the end of the array, from which point the behaviour of the C code is
  undefined and the model says nothing more.
\<close>

datatype exn =
    rb_eArgError string
  | rb_eNoMemError string
  | ndt_error ndt_context_t
  | stack_overrun nat

section \<open>External collaborators\<close>

text \<open>
  The functions of the libraries and of the Ruby C API that the call uses, with the two
  constants \<^verbatim>\<open>NDT_MAX_ARGS\<close> and \<^verbatim>\<open>xnd_error\<close> and the build switch
  \<^verbatim>\<open>HAVE_PTHREAD_H\<close>. A function that writes through a pointer returns what it wrote:
  \<open>gm_select\<close> returns the kernel, the spec and the context; \<open>gm_apply\<close> returns its
  status, the argument stack after the kernels ran and the context. The allocator and the
  wrapper of a kernel-made buffer may answer differently from one call to the next, so they
  take the position of the request as well: the output index for
  \<open>rb_xnd_empty_from_type\<close>, the stack slot for \<open>rb_xnd_from_xnd\<close>. Both return
  \<open>NULL\<close> on failure.
\<close>

record extern =
  NDT_MAX_ARGS :: nat
  HAVE_PTHREAD_H :: bool
  xnd_error :: xnd_t
  rb_xnd_check_type :: "VALUE \<Rightarrow> bool"
  rb_xnd_const_xnd :: "VALUE \<Rightarrow> xnd_t"
  gm_select :: "gm_tbl_t \<Rightarrow> string \<Rightarrow> ndt_t list \<Rightarrow> xnd_t list
                 \<Rightarrow> gm_kernel_t \<times> ndt_apply_spec_t \<times> ndt_context_t"
  rb_xnd_empty_from_type :: "nat \<Rightarrow> ndt_t \<Rightarrow> VALUE"
  gm_apply :: "gm_kernel_t \<Rightarrow> xnd_t list \<Rightarrow> int \<Rightarrow> int \<times> xnd_t list \<times> ndt_context_t"
  gm_apply_thread :: "gm_kernel_t \<Rightarrow> xnd_t list \<Rightarrow> int \<Rightarrow> 32 word \<Rightarrow> 64 word
                       \<Rightarrow> int \<times> xnd_t list \<times> ndt_context_t"
  rb_xnd_from_xnd :: "nat \<Rightarrow> xnd_t \<Rightarrow> VALUE"

text \<open>
  What a call does to the world outside its own frame is the sequence of its effectful
  library calls, in order, each with its arguments (and its result where the result is a new
  object). \<open>Xnd_del_buffer\<close> and \<open>Rb_xnd_from_xnd\<close> take a pointer into the stack: the
  event has the slot and the buffer found there.
\<close>

datatype event =
    Gm_select gm_tbl_t string "ndt_t list" "xnd_t list"
  | Rb_xnd_empty_from_type ndt_t VALUE
  | Ndt_apply_spec_clear
  | Gm_apply gm_kernel_t "xnd_t list" int
  | Gm_apply_thread gm_kernel_t "xnd_t list" int "32 word" "64 word"
  | Ndt_del ndt_t
  | Rb_xnd_from_xnd nat xnd_t VALUE
  | Xnd_del_buffer nat xnd_t

text \<open>The local arrays of the call, with the events so far.\<close>

record locals =
  stack :: "xnd_t list"
  result :: "VALUE list"
  trace :: "event list"

section \<open>\<^verbatim>\<open>Gumath_GufuncObject_call\<close>\<close>

text \<open>
  Lines 145-152: every argument is checked and copied into the stack; the first argument
  that is not an XND object raises (\<open>None\<close>).
\<close>

fun load_args :: "extern \<Rightarrow> VALUE list \<Rightarrow> xnd_t list option" where
  "load_args ext [] = Some []"
| "load_args ext (a # as) =
     (if \<not> rb_xnd_check_type ext a then None
      else map_option ((#) (rb_xnd_const_xnd ext a)) (load_args ext as))"

text \<open>Lines 162-166: the stack's input types are overwritten with the broadcast types.\<close>

fun set_broadcast_types :: "ndt_apply_spec_t \<Rightarrow> nat list \<Rightarrow> xnd_t list \<Rightarrow> xnd_t list" where
  "set_broadcast_types sp [] stk = stk"
| "set_broadcast_types sp (i # is) stk =
     set_broadcast_types sp is (stk[i := (stk ! i)\<lparr>type := broadcast sp i\<rparr>])"

definition broadcast_inputs :: "ndt_apply_spec_t \<Rightarrow> nat \<Rightarrow> xnd_t list \<Rightarrow> xnd_t list" where
  "broadcast_inputs sp argc stk =
     (if nbroadcast sp > 0 then set_broadcast_types sp [0..<argc] stk else stk)"

text \<open>
  Lines 168-182: the outputs are visited in order. Slot \<open>nin + i\<close> of the stack and slot
  \<open>i\<close> of the result are the next free ones, so both lists grow by one entry per output.
  A failed allocation clears the spec and raises. The writes of lines 175-176 and 179-180
  need \<open>nin + i < NDT_MAX_ARGS\<close> (which gives \<open>i < NDT_MAX_ARGS\<close> for the result);
  the code does not test it, and the model stops with \<open>stack_overrun\<close> where it fails.
\<close>

fun plan_outputs ::
  "extern \<Rightarrow> ndt_apply_spec_t \<Rightarrow> nat \<Rightarrow> nat list \<Rightarrow> locals \<Rightarrow> (event list \<times> exn) + locals" where
  "plan_outputs ext sp nin [] st = Inr st"
| "plan_outputs ext sp nin (i # is) st =
     (if ndt_is_concrete (out sp i) then
        (let x = rb_xnd_empty_from_type ext i (out sp i);
             tr = trace st @ [Rb_xnd_empty_from_type (out sp i) x]
         in if x = NULL
            then Inl (tr @ [Ndt_apply_spec_clear],
                      rb_eNoMemError ''could not allocate empty XND object.'')
            else if NDT_MAX_ARGS ext \<le> nin + i then Inl (tr, stack_overrun (nin + i))
            else plan_outputs ext sp nin is
                   \<lparr>stack = stack st @ [rb_xnd_const_xnd ext x],
                    result = result st @ [x],
                    trace = tr\<rparr>)
      else if NDT_MAX_ARGS ext \<le> nin + i then Inl (trace st, stack_overrun (nin + i))
      else plan_outputs ext sp nin is
             \<lparr>stack = stack st @ [xnd_error ext],
              result = result st @ [NULL],
              trace = trace st\<rparr>)"

text \<open>Lines 184-195: the threaded apply where pthreads are available, else the plain one.\<close>

definition apply_kernel ::
  "extern \<Rightarrow> globals \<Rightarrow> gm_kernel_t \<Rightarrow> ndt_apply_spec_t \<Rightarrow> xnd_t list
     \<Rightarrow> event \<times> int \<times> xnd_t list \<times> ndt_context_t" where
  "apply_kernel ext g kern sp stk =
     (if HAVE_PTHREAD_H ext
      then (Gm_apply_thread kern stk (outer_dims sp) (flags sp) (max_threads g),
            gm_apply_thread ext kern stk (outer_dims sp) (flags sp) (max_threads g))
      else (Gm_apply kern stk (outer_dims sp),
            gm_apply ext kern stk (outer_dims sp)))"

text \<open>
  Lines 203-207: the inner loop that releases kernel-made buffers when wrapping one failed.
  It starts at \<open>k = i+i\<close>. The slot passed to \<^verbatim>\<open>xnd_del_buffer\<close> keeps its
  content in the model: what the library writes through the pointer, if anything, is not
  part of this file.
\<close>

definition release_pending :: "ndt_apply_spec_t \<Rightarrow> nat \<Rightarrow> nat \<Rightarrow> xnd_t list \<Rightarrow> event list" where
  "release_pending sp nin i stk =
     map (\<lambda>k. Xnd_del_buffer (nin + k) (stk ! (nin + k)))
       (filter (\<lambda>k. ndt_is_abstract (out sp k)) [i + i..<nout sp])"

text \<open>
  Lines 198-210, the body of the loop over the outputs: an abstract output is wrapped into a
  Ruby object, and its stack slot is overwritten with \<^verbatim>\<open>xnd_error\<close> before the
  result of the wrapping is tested.
\<close>

definition resolve_output :: "extern \<Rightarrow> ndt_apply_spec_t \<Rightarrow> nat \<Rightarrow> nat \<Rightarrow> locals \<Rightarrow> locals" where
  "resolve_output ext sp nin i st =
     (if ndt_is_abstract (out sp i) then
        (let x = rb_xnd_from_xnd ext (nin + i) (stack st ! (nin + i));
             tr = trace st @ [Ndt_del (out sp i),
                              Rb_xnd_from_xnd (nin + i) (stack st ! (nin + i)) x];
             stk = (stack st)[nin + i := xnd_error ext]
         in \<lparr>stack = stk,
             result = (result st)[i := x],
             trace = (if x = NULL then tr @ release_pending sp nin i stk else tr)\<rparr>)
      else st)"

text \<open>
  Lines 197-211: the loop. After a failed wrapping and the inner loop, it goes on with the
  next output.
\<close>

fun resolve_outputs ::
  "extern \<Rightarrow> ndt_apply_spec_t \<Rightarrow> nat \<Rightarrow> nat list \<Rightarrow> locals \<Rightarrow> locals" where
  "resolve_outputs ext sp nin [] st = st"
| "resolve_outputs ext sp nin (i # is) st =
     resolve_outputs ext sp nin is (resolve_output ext sp nin i st)"

text \<open>Lines 213-217: the broadcast types are deleted when there are any.\<close>

definition free_broadcast :: "ndt_apply_spec_t \<Rightarrow> nat \<Rightarrow> event list" where
  "free_broadcast sp nin =
     (if nbroadcast sp > 0 then map (\<lambda>i. Ndt_del (broadcast sp i)) [0..<nin] else [])"

text \<open>Lines 219-229: nothing, the one result, or an array of all results.\<close>

definition return_value :: "ndt_apply_spec_t \<Rightarrow> VALUE list \<Rightarrow> VALUE" where
  "return_value sp res =
     (if nout sp = 0 then Qnil
      else if nout sp = 1 then res ! 0
      else Array (map (\<lambda>i. res ! i) [0..<nout sp]))"

text \<open>
  Lines 162-230: the call from the point where a kernel has been selected. \<open>stack0\<close> holds
  the inputs and \<open>tr0\<close> the events so far.
\<close>

definition call_selected ::
  "extern \<Rightarrow> globals \<Rightarrow> gm_kernel_t \<Rightarrow> ndt_apply_spec_t \<Rightarrow> nat \<Rightarrow> xnd_t list \<Rightarrow> event list
     \<Rightarrow> event list \<times> (exn + VALUE)" where
  "call_selected ext g kern sp argc stack0 tr0 =
     (case plan_outputs ext sp argc [0..<nout sp]
             \<lparr>stack = broadcast_inputs sp argc stack0, result = [], trace = tr0\<rparr> of
        Inl (tr, e) \<Rightarrow> (tr, Inl e)
      | Inr st1 \<Rightarrow>
          (case apply_kernel ext g kern sp (stack st1) of
             (ev, rc, stk, ctx) \<Rightarrow>
               if rc < 0 then (trace st1 @ [ev], Inl (ndt_error ctx))
               else
                 (let st2 = resolve_outputs ext sp argc [0..<nout sp]
                              (st1\<lparr>stack := stk, trace := trace st1 @ [ev]\<rparr>)
                  in (trace st2 @ free_broadcast sp argc,
                      Inr (return_value sp (result st2))))))"

text \<open>
  Lines 128-230. The result is the trace of the call and either the exception raised or the
  value returned. \<open>nin\<close> is \<open>argc\<close>, the length of \<open>argv\<close>.
\<close>

definition Gumath_GufuncObject_call ::
  "extern \<Rightarrow> globals \<Rightarrow> VALUE list \<Rightarrow> GufuncObject \<Rightarrow> event list \<times> (exn + VALUE)" where
  "Gumath_GufuncObject_call ext g argv self =
     (if length argv > NDT_MAX_ARGS ext then ([], Inl (rb_eArgError ''too many arguments.''))
      else
        (case load_args ext argv of
           None \<Rightarrow> ([], Inl (rb_eArgError ''Args must be XND.''))
         | Some stack0 \<Rightarrow>
             (case gm_select ext (GufuncObject.table self) (GufuncObject.name self)
                     (map type stack0) stack0 of
                (kern, sp, ctx) \<Rightarrow>
                  (let tr0 = [Gm_select (GufuncObject.table self) (GufuncObject.name self)
                                (map type stack0) stack0]
                   in if kernel_set kern = None then (tr0, Inl (ndt_error ctx))
                      else call_selected ext g kern sp (length argv) stack0 tr0))))"

section \<open>The singleton methods\<close>

text \<open>
  Lines 236-252. \<^verbatim>\<open>Gumath_s_unsafe_add_kernel\<close> and \<^verbatim>\<open>Gumath_s_set_max_threads\<close>
  have empty bodies: control reaches the closing brace at once, no statement runs, no
  exception is raised and no value is returned (\<open>Inr None\<close>).
  \<^verbatim>\<open>Gumath_s_get_max_threads\<close> passes the 64-bit \<^verbatim>\<open>max_threads\<close> to
  \<^verbatim>\<open>INT2NUM\<close>, which takes a C \<^verbatim>\<open>int\<close>: the value is converted to 32 bits.
\<close>

definition Gumath_s_unsafe_add_kernel ::
  "globals \<Rightarrow> VALUE list \<Rightarrow> VALUE \<Rightarrow> globals \<times> (exn + VALUE option)" where
  "Gumath_s_unsafe_add_kernel g argv klass = (g, Inr None)"

definition Gumath_s_get_max_threads :: "globals \<Rightarrow> VALUE \<Rightarrow> VALUE" where
  "Gumath_s_get_max_threads g klass = INT2NUM (ucast (max_threads g))"

definition Gumath_s_set_max_threads ::
  "globals \<Rightarrow> VALUE \<Rightarrow> VALUE \<Rightarrow> globals \<times> (exn + VALUE option)" where
  "Gumath_s_set_max_threads g klass threads = (g, Inr None)"

section \<open>Notions for the statements\<close>

text \<open>
  What the planning loop leaves in slot \<open>i\<close> of the result and in slot \<open>nin + i\<close> of the
  stack when no allocation fails, the allocation events of a run of outputs, and the
  condition that the allocation for output \<open>i\<close> does not fail.
\<close>

definition planned_result :: "extern \<Rightarrow> ndt_apply_spec_t \<Rightarrow> nat \<Rightarrow> VALUE" where
  "planned_result ext sp i =
     (if ndt_is_concrete (out sp i) then rb_xnd_empty_from_type ext i (out sp i) else NULL)"

definition planned_slot :: "extern \<Rightarrow> ndt_apply_spec_t \<Rightarrow> nat \<Rightarrow> xnd_t" where
  "planned_slot ext sp i =
     (if ndt_is_concrete (out sp i)
      then rb_xnd_const_xnd ext (rb_xnd_empty_from_type ext i (out sp i))
      else xnd_error ext)"

definition alloc_events :: "extern \<Rightarrow> ndt_apply_spec_t \<Rightarrow> nat list \<Rightarrow> event list" where
  "alloc_events ext sp is =
     map (\<lambda>i. Rb_xnd_empty_from_type (out sp i) (rb_xnd_empty_from_type ext i (out sp i)))
       (filter (\<lambda>i. ndt_is_concrete (out sp i)) is)"

definition alloc_ok :: "extern \<Rightarrow> ndt_apply_spec_t \<Rightarrow> nat \<Rightarrow> bool" where
  "alloc_ok ext sp i =
     (ndt_is_concrete (out sp i) \<longrightarrow> rb_xnd_empty_from_type ext i (out sp i) \<noteq> NULL)"

text \<open>
  The inputs as the first loop copies them, the event of the selection, what the selector
  answers, and the condition that a call gets past the selection with kernel \<open>kern\<close> and
  spec \<open>sp\<close> and has room for its outputs: the arity bound holds, every argument is an XND
  object, the kernel's set is not null, and the inputs and outputs together fit into the
  \<^verbatim>\<open>NDT_MAX_ARGS\<close> slots of the local arrays.
\<close>

definition inputs :: "extern \<Rightarrow> VALUE list \<Rightarrow> xnd_t list" where
  "inputs ext argv = map (rb_xnd_const_xnd ext) argv"

definition select_event :: "extern \<Rightarrow> VALUE list \<Rightarrow> GufuncObject \<Rightarrow> event" where
  "select_event ext argv self =
     Gm_select (GufuncObject.table self) (GufuncObject.name self)
       (map type (inputs ext argv)) (inputs ext argv)"

definition selected :: "extern \<Rightarrow> VALUE list \<Rightarrow> GufuncObject \<Rightarrow> gm_kernel_t \<times> ndt_apply_spec_t" where
  "selected ext argv self =
     (case gm_select ext (GufuncObject.table self) (GufuncObject.name self)
             (map type (inputs ext argv)) (inputs ext argv) of
        (kern, sp, ctx) \<Rightarrow> (kern, sp))"

definition selects ::
  "extern \<Rightarrow> VALUE list \<Rightarrow> GufuncObject \<Rightarrow> gm_kernel_t \<Rightarrow> ndt_apply_spec_t \<Rightarrow> bool" where
  "selects ext argv self kern sp \<longleftrightarrow>
     length argv \<le> NDT_MAX_ARGS ext \<and>
     (\<forall>a\<in>set argv. rb_xnd_check_type ext a) \<and>
     selected ext argv self = (kern, sp) \<and>
     kernel_set kern \<noteq> None \<and>
     length argv + nout sp \<le> NDT_MAX_ARGS ext"

definition planned_stack :: "extern \<Rightarrow> ndt_apply_spec_t \<Rightarrow> VALUE list \<Rightarrow> xnd_t list" where
  "planned_stack ext sp argv =
     broadcast_inputs sp (length argv) (inputs ext argv) @
     map (planned_slot ext sp) [0..<nout sp]"

text \<open>
  Reading a trace: the stack an apply event was called with, the buffers passed to
  \<^verbatim>\<open>xnd_del_buffer\<close>, the objects the allocator returned, the events that the loop
  over the abstract outputs \<open>is\<close> can add, and the results of the wrapping calls.
\<close>

fun apply_stack :: "event \<Rightarrow> xnd_t list option" where
  "apply_stack (Gm_apply k stk d) = Some stk"
| "apply_stack (Gm_apply_thread k stk d f m) = Some stk"
| "apply_stack e = None"

fun released_by :: "event \<Rightarrow> xnd_t list" where
  "released_by (Xnd_del_buffer s x) = [x]"
| "released_by e = []"

definition released_buffers :: "event list \<Rightarrow> xnd_t list" where
  "released_buffers tr = concat (map released_by tr)"

fun allocated_by :: "event \<Rightarrow> VALUE list" where
  "allocated_by (Rb_xnd_empty_from_type t v) = (if v = NULL then [] else [v])"
| "allocated_by e = []"

definition allocated_objects :: "event list \<Rightarrow> VALUE list" where
  "allocated_objects tr = concat (map allocated_by tr)"

fun resolve_event :: "ndt_apply_spec_t \<Rightarrow> nat list \<Rightarrow> event \<Rightarrow> bool" where
  "resolve_event sp is (Ndt_del t) = (\<exists>i\<in>set is. ndt_is_abstract (out sp i) \<and> t = out sp i)"
| "resolve_event sp is (Rb_xnd_from_xnd s x v) = True"
| "resolve_event sp is (Xnd_del_buffer s x) = True"
| "resolve_event sp is e = False"

fun wrapped_by :: "event \<Rightarrow> VALUE list" where
  "wrapped_by (Rb_xnd_from_xnd s x v) = [v]"
| "wrapped_by e = []"

definition wrapped_objects :: "event list \<Rightarrow> VALUE list" where
  "wrapped_objects tr = concat (map wrapped_by tr)"

section \<open>A sample environment\<close>

text \<open>
  Concrete collaborators for running the model: \<^verbatim>\<open>NDT_MAX_ARGS\<close> is 128 as in ndtypes.h,
  the XND objects are the \<open>Object\<close> values, the selector answers with a given spec unless
  the table is empty, the allocator fails at one chosen output index (or never), the apply
  returns a chosen status and writes a buffer into every placeholder slot, and the wrapper
  fails at one chosen stack slot (or never).
\<close>

definition conc :: "nat \<Rightarrow> ndt_t" where
  "conc n = \<lparr>ndt_id = n, access = Concrete\<rparr>"

definition abst :: "nat \<Rightarrow> ndt_t" where
  "abst n = \<lparr>ndt_id = n, access = Abstract\<rparr>"

definition ex_error :: xnd_t where
  "ex_error = \<lparr>type = abst 0, ptr = 0\<rparr>"

definition ex_context :: ndt_context_t where
  "ex_context = \<lparr>err = 1, msg = ''kernel failed''\<rparr>"

definition ex_spec :: "ndt_t list \<Rightarrow> ndt_t list \<Rightarrow> ndt_apply_spec_t" where
  "ex_spec outs bs =
     \<lparr>flags = 0, nout = length outs, nbroadcast = length bs, outer_dims = 1,
      out = (\<lambda>i. if i < length outs then outs ! i else abst 0),
      broadcast = (\<lambda>i. if i < length bs then bs ! i else abst 0)\<rparr>"

definition ex_made :: "xnd_t list \<Rightarrow> xnd_t list" where
  "ex_made stk =
     map (\<lambda>j. if stk ! j = ex_error then \<lparr>type = conc (200 + j), ptr = 200 + j\<rparr> else stk ! j)
       [0..<length stk]"

definition ex_extern :: "ndt_apply_spec_t \<Rightarrow> nat option \<Rightarrow> int \<Rightarrow> nat option \<Rightarrow> extern" where
  "ex_extern sp alloc_fails rc wrap_fails =
     \<lparr>NDT_MAX_ARGS = 128,
      HAVE_PTHREAD_H = True,
      xnd_error = ex_error,
      rb_xnd_check_type = (\<lambda>v. case v of Object n \<Rightarrow> True | _ \<Rightarrow> False),
      rb_xnd_const_xnd = (\<lambda>v. case v of Object n \<Rightarrow> \<lparr>type = conc n, ptr = n\<rparr> | _ \<Rightarrow> ex_error),
      gm_select = (\<lambda>tbl nm tys stk.
         (\<lparr>kernel_set = (if tbl = [] then None else Some 1)\<rparr>, sp, ex_context)),
      rb_xnd_empty_from_type = (\<lambda>i t. if alloc_fails = Some i then NULL else Object (100 + i)),
      gm_apply = (\<lambda>k stk d. (rc, ex_made stk, ex_context)),
      gm_apply_thread = (\<lambda>k stk d f m. (rc, ex_made stk, ex_context)),
      rb_xnd_from_xnd = (\<lambda>s x. if wrap_fails = Some s then NULL else Object (300 + s))\<rparr>"

definition ex_globals :: globals where
  "ex_globals = \<lparr>globals.table = [\<lparr>KernelEntry.name = ''f'', input_signature = ''... -> ...'',
                                   function_pointer = 1\<rparr>],
                 max_threads = 1\<rparr>"

definition ex_self :: GufuncObject where
  "ex_self = \<lparr>GufuncObject.table = globals.table ex_globals, GufuncObject.name = ''f''\<rparr>"

definition ex_kernel :: gm_kernel_t where
  "ex_kernel = \<lparr>kernel_set = Some 1\<rparr>"

text \<open>
  Seven calls on the sample environment: the second of two concrete allocations fails; the
  apply fails after one concrete output has been allocated; the apply fails after
  broadcasting; the wrapping of the third of four abstract outputs fails; the wrapping of
  the only output fails; and two calls that return, without and with broadcasting.
\<close>

definition alloc_scene :: extern where
  "alloc_scene = ex_extern (ex_spec [conc 1, conc 2] []) (Some 1) 0 None"

definition apply_scene :: extern where
  "apply_scene = ex_extern (ex_spec [conc 1, abst 2] []) None (- 1) None"

definition stale_scene :: extern where
  "stale_scene = ex_extern (ex_spec [] [conc 9]) None (- 1) None"

definition wrap_scene :: extern where
  "wrap_scene = ex_extern (ex_spec [abst 1, abst 2, abst 3, abst 4] []) None 0 (Some 3)"

definition single_scene :: extern where
  "single_scene = ex_extern (ex_spec [abst 1] []) None 0 (Some 1)"

definition plain_scene :: extern where
  "plain_scene = ex_extern (ex_spec [conc 1, abst 2] []) None 0 None"

definition broadcast_scene :: extern where
  "broadcast_scene = ex_extern (ex_spec [conc 1, abst 2] [conc 9]) None 0 None"

section \<open>The loops\<close>

lemma alloc_events_Nil [simp]: "alloc_events ext sp [] = []"
  by (simp add: alloc_events_def)

lemma alloc_events_Cons:
  "alloc_events ext sp (i # is) =
     (if ndt_is_concrete (out sp i)
      then Rb_xnd_empty_from_type (out sp i) (rb_xnd_empty_from_type ext i (out sp i)) #
           alloc_events ext sp is
      else alloc_events ext sp is)"
  by (simp add: alloc_events_def)

lemma alloc_events_append:
  "alloc_events ext sp (xs @ ys) = alloc_events ext sp xs @ alloc_events ext sp ys"
  by (simp add: alloc_events_def)

lemma plan_outputs_ok:
  "\<forall>i\<in>set is. alloc_ok ext sp i \<and> nin + i < NDT_MAX_ARGS ext \<Longrightarrow>
   plan_outputs ext sp nin is st =
     Inr \<lparr>stack = stack st @ map (planned_slot ext sp) is,
          result = result st @ map (planned_result ext sp) is,
          trace = trace st @ alloc_events ext sp is\<rparr>"
proof (induction "is" arbitrary: st)
  case Nil
  then show ?case by simp
next
  case (Cons i "is")
  then show ?case
    by (simp add: alloc_ok_def planned_slot_def planned_result_def alloc_events_Cons Let_def)
qed

lemma plan_outputs_fail:
  assumes "\<forall>j\<in>set pre. alloc_ok ext sp j \<and> nin + j < NDT_MAX_ARGS ext"
    and "ndt_is_concrete (out sp i)"
    and "rb_xnd_empty_from_type ext i (out sp i) = NULL"
  shows "plan_outputs ext sp nin (pre @ i # post) st =
           Inl (trace st @ alloc_events ext sp (pre @ [i]) @ [Ndt_apply_spec_clear],
                rb_eNoMemError ''could not allocate empty XND object.'')"
  using assms
proof (induction pre arbitrary: st)
  case Nil
  then show ?case by (simp add: alloc_events_Cons Let_def)
next
  case (Cons j pre)
  then show ?case
    by (simp add: alloc_ok_def alloc_events_Cons Let_def)
qed

lemma plan_outputs_Inr_ok:
  "plan_outputs ext sp nin is st = Inr st' \<Longrightarrow>
   \<forall>i\<in>set is. alloc_ok ext sp i \<and> nin + i < NDT_MAX_ARGS ext"
proof (induction "is" arbitrary: st)
  case Nil
  then show ?case by simp
next
  case (Cons i "is")
  then show ?case
    by (auto simp: alloc_ok_def Let_def split: if_splits)
qed

lemma plan_outputs_Inl_prefix:
  "plan_outputs ext sp nin is st = Inl (tr, e) \<Longrightarrow> \<exists>rest. tr = trace st @ rest"
proof (induction "is" arbitrary: st)
  case Nil
  then show ?case by simp
next
  case (Cons i "is")
  then show ?case
    by (fastforce simp: Let_def split: if_splits)
qed

lemma plan_outputs_Inr_prefix:
  "plan_outputs ext sp nin is st = Inr st' \<Longrightarrow> \<exists>rest. trace st' = trace st @ rest"
proof (induction "is" arbitrary: st)
  case Nil
  then show ?case by simp
next
  case (Cons i "is")
  then show ?case
    by (fastforce simp: Let_def split: if_splits)
qed

lemma plan_outputs_Inl:
  "plan_outputs ext sp nin is st = Inl (tr, e) \<Longrightarrow> \<forall>i\<in>set is. nin + i < NDT_MAX_ARGS ext \<Longrightarrow>
   \<exists>pre i post. is = pre @ i # post \<and>
     (\<forall>j\<in>set pre. alloc_ok ext sp j \<and> nin + j < NDT_MAX_ARGS ext) \<and>
     ndt_is_concrete (out sp i) \<and> rb_xnd_empty_from_type ext i (out sp i) = NULL"
proof (induction "is" arbitrary: st)
  case Nil
  then show ?case by simp
next
  case (Cons i "is")
  show ?case
  proof (cases "alloc_ok ext sp i")
    case False
    then have "i # is = [] @ i # is \<and>
       (\<forall>j\<in>set []. alloc_ok ext sp j \<and> nin + j < NDT_MAX_ARGS ext) \<and>
       ndt_is_concrete (out sp i) \<and> rb_xnd_empty_from_type ext i (out sp i) = NULL"
      by (simp add: alloc_ok_def)
    then show ?thesis by blast
  next
    case True
    with Cons.prems obtain st1 where "plan_outputs ext sp nin is st1 = Inl (tr, e)"
      by (auto simp: alloc_ok_def Let_def split: if_splits)
    moreover from Cons.prems have "\<forall>k\<in>set is. nin + k < NDT_MAX_ARGS ext" by simp
    ultimately obtain pre k post where
      "is = pre @ k # post" "\<forall>j\<in>set pre. alloc_ok ext sp j \<and> nin + j < NDT_MAX_ARGS ext"
      "ndt_is_concrete (out sp k)" "rb_xnd_empty_from_type ext k (out sp k) = NULL"
      using Cons.IH by blast
    with True Cons.prems have "i # is = (i # pre) @ k # post \<and>
       (\<forall>j\<in>set (i # pre). alloc_ok ext sp j \<and> nin + j < NDT_MAX_ARGS ext) \<and>
       ndt_is_concrete (out sp k) \<and> rb_xnd_empty_from_type ext k (out sp k) = NULL"
      by simp
    then show ?thesis by blast
  qed
qed

lemma resolve_output_trace:
  "\<exists>tl. trace (resolve_output ext sp nin i st) = trace st @ tl"
  by (simp add: resolve_output_def Let_def)

lemma resolve_outputs_trace:
  "\<exists>tl. trace (resolve_outputs ext sp nin is st) = trace st @ tl"
proof (induction "is" arbitrary: st)
  case Nil
  then show ?case by simp
next
  case (Cons i "is")
  obtain t1 where t1: "trace (resolve_output ext sp nin i st) = trace st @ t1"
    using resolve_output_trace by blast
  obtain t2 where "trace (resolve_outputs ext sp nin is (resolve_output ext sp nin i st)) =
      trace (resolve_output ext sp nin i st) @ t2"
    using Cons.IH by blast
  with t1 show ?case by simp
qed

lemma resolve_outputs_trace_mono:
  "e \<in> set (trace st) \<Longrightarrow> e \<in> set (trace (resolve_outputs ext sp nin is st))"
  using resolve_outputs_trace [of ext sp nin "is" st] by auto

lemma resolve_event_mono:
  "resolve_event sp is e \<Longrightarrow> set is \<subseteq> set js \<Longrightarrow> resolve_event sp js e"
  by (cases e) auto

lemma resolve_output_events:
  "e \<in> set (trace (resolve_output ext sp nin i st)) \<Longrightarrow>
   e \<in> set (trace st) \<or> resolve_event sp [i] e"
  by (auto simp: resolve_output_def release_pending_def Let_def split: if_splits)

lemma resolve_outputs_events:
  "e \<in> set (trace (resolve_outputs ext sp nin is st)) \<Longrightarrow>
   e \<in> set (trace st) \<or> resolve_event sp is e"
proof (induction "is" arbitrary: st)
  case Nil
  then show ?case by simp
next
  case (Cons i "is")
  from Cons.prems have "e \<in> set (trace (resolve_output ext sp nin i st)) \<or> resolve_event sp is e"
    using Cons.IH by simp
  then show ?case
  proof
    assume "e \<in> set (trace (resolve_output ext sp nin i st))"
    then have "e \<in> set (trace st) \<or> resolve_event sp [i] e"
      by (rule resolve_output_events)
    then show ?thesis
      using resolve_event_mono [of sp "[i]" e "i # is"] by auto
  next
    assume "resolve_event sp is e"
    then show ?thesis
      using resolve_event_mono [of sp "is" e "i # is"] by auto
  qed
qed

lemma load_args_Some:
  "\<forall>a\<in>set argv. rb_xnd_check_type ext a \<Longrightarrow> load_args ext argv = Some (inputs ext argv)"
  by (induction argv) (simp_all add: inputs_def)

lemma load_args_None:
  "\<exists>a\<in>set argv. \<not> rb_xnd_check_type ext a \<Longrightarrow> load_args ext argv = None"
  by (induction argv) auto

lemma call_of_selects:
  assumes "selects ext argv self kern sp"
  shows "Gumath_GufuncObject_call ext g argv self =
           call_selected ext g kern sp (length argv) (inputs ext argv)
             [select_event ext argv self]"
proof -
  from assms have len: "\<not> length argv > NDT_MAX_ARGS ext"
    and la: "load_args ext argv = Some (inputs ext argv)"
    and sel: "selected ext argv self = (kern, sp)"
    and ks: "kernel_set kern \<noteq> None"
    by (simp_all add: selects_def load_args_Some)
  from sel obtain ctx where
    "gm_select ext (GufuncObject.table self) (GufuncObject.name self)
       (map type (inputs ext argv)) (inputs ext argv) = (kern, sp, ctx)"
    by (auto simp: selected_def split: prod.splits)
  with len la ks show ?thesis
    by (auto simp: Gumath_GufuncObject_call_def select_event_def Let_def)
qed

lemma selects_bound: "selects ext argv self kern sp \<Longrightarrow> length argv + nout sp \<le> NDT_MAX_ARGS ext"
  by (simp add: selects_def)

lemma plan_all:
  "plan_outputs ext sp nin [0..<nout sp] \<lparr>stack = stk, result = [], trace = tr0\<rparr> = Inr st1 \<Longrightarrow>
   (\<forall>i<nout sp. alloc_ok ext sp i) \<and>
   st1 = \<lparr>stack = stk @ map (planned_slot ext sp) [0..<nout sp],
          result = map (planned_result ext sp) [0..<nout sp],
          trace = tr0 @ alloc_events ext sp [0..<nout sp]\<rparr>"
proof -
  assume a: "plan_outputs ext sp nin [0..<nout sp] \<lparr>stack = stk, result = [], trace = tr0\<rparr> = Inr st1"
  then have ok: "\<forall>i\<in>set [0..<nout sp]. alloc_ok ext sp i \<and> nin + i < NDT_MAX_ARGS ext"
    by (rule plan_outputs_Inr_ok)
  from plan_outputs_ok [OF ok, of "\<lparr>stack = stk, result = [], trace = tr0\<rparr>"] a
  show ?thesis using ok by simp
qed

lemma plan_fails:
  assumes a: "plan_outputs ext sp nin [0..<nout sp] \<lparr>stack = stk, result = [], trace = tr0\<rparr> =
                Inl (tr, e)"
    and b: "nin + nout sp \<le> NDT_MAX_ARGS ext"
  shows "\<exists>i<nout sp. (\<forall>j<i. alloc_ok ext sp j) \<and> ndt_is_concrete (out sp i) \<and>
      rb_xnd_empty_from_type ext i (out sp i) = NULL \<and>
      tr = tr0 @ alloc_events ext sp [0..<Suc i] @ [Ndt_apply_spec_clear] \<and>
      e = rb_eNoMemError ''could not allocate empty XND object.''"
proof -
  from b have "\<forall>i\<in>set [0..<nout sp]. nin + i < NDT_MAX_ARGS ext" by auto
  from plan_outputs_Inl [OF a this] obtain pre i post where
    sp: "[0..<nout sp] = pre @ i # post"
    and pre: "\<forall>j\<in>set pre. alloc_ok ext sp j \<and> nin + j < NDT_MAX_ARGS ext"
    and c: "ndt_is_concrete (out sp i)" and n: "rb_xnd_empty_from_type ext i (out sp i) = NULL"
    by blast
  have "length pre < nout sp" using arg_cong [OF sp, of length] by simp
  have i: "i = length pre"
    using arg_cong [OF sp, of "\<lambda>xs. xs ! length pre"] \<open>length pre < nout sp\<close>
    by (simp add: nth_append)
  have "pre = take i [0..<nout sp]" using sp i by simp
  then have p: "pre = [0..<i]" using \<open>length pre < nout sp\<close> i by simp
  from plan_outputs_fail [OF pre c n, of post "\<lparr>stack = stk, result = [], trace = tr0\<rparr>"] a sp
  have "tr = tr0 @ alloc_events ext sp (pre @ [i]) @ [Ndt_apply_spec_clear]"
    and "e = rb_eNoMemError ''could not allocate empty XND object.''" by simp_all
  moreover have "i < nout sp" using i \<open>length pre < nout sp\<close> by simp
  moreover have "\<forall>j<i. alloc_ok ext sp j" using pre p by simp
  moreover have "pre @ [i] = [0..<Suc i]" using p by simp
  ultimately show ?thesis using c n by metis
qed

lemma call_selected_cases:
  assumes "call_selected ext g kern sp argc stk0 tr0 = (tr, r)"
    and "argc + nout sp \<le> NDT_MAX_ARGS ext"
  obtains
    (alloc_failed) i where "i < nout sp" "\<forall>j<i. alloc_ok ext sp j" "ndt_is_concrete (out sp i)"
      "rb_xnd_empty_from_type ext i (out sp i) = NULL"
      "tr = tr0 @ alloc_events ext sp [0..<Suc i] @ [Ndt_apply_spec_clear]"
      "r = Inl (rb_eNoMemError ''could not allocate empty XND object.'')"
  | (apply_failed) ev rc stk ctx where "\<forall>i<nout sp. alloc_ok ext sp i"
      "apply_kernel ext g kern sp
         (broadcast_inputs sp argc stk0 @ map (planned_slot ext sp) [0..<nout sp]) =
       (ev, rc, stk, ctx)"
      "rc < 0"
      "tr = tr0 @ alloc_events ext sp [0..<nout sp] @ [ev]"
      "r = Inl (ndt_error ctx)"
  | (returned) ev rc stk ctx st2 where "\<forall>i<nout sp. alloc_ok ext sp i"
      "apply_kernel ext g kern sp
         (broadcast_inputs sp argc stk0 @ map (planned_slot ext sp) [0..<nout sp]) =
       (ev, rc, stk, ctx)"
      "\<not> rc < 0"
      "st2 = resolve_outputs ext sp argc [0..<nout sp]
               \<lparr>stack = stk, result = map (planned_result ext sp) [0..<nout sp],
                trace = tr0 @ alloc_events ext sp [0..<nout sp] @ [ev]\<rparr>"
      "tr = trace st2 @ free_broadcast sp argc"
      "r = Inr (return_value sp (result st2))"
proof (cases "plan_outputs ext sp argc [0..<nout sp]
                \<lparr>stack = broadcast_inputs sp argc stk0, result = [], trace = tr0\<rparr>")
  case (Inl p)
  obtain tr' e where p: "p = (tr', e)" by (cases p)
  with Inl assms(1) have "tr = tr'" "r = Inl e"
    by (simp_all add: call_selected_def)
  with plan_fails [OF Inl [unfolded p] assms(2)] alloc_failed show ?thesis by blast
next
  case (Inr st1)
  from plan_all [OF Inr] have ok: "\<forall>i<nout sp. alloc_ok ext sp i"
    and st1: "st1 = \<lparr>stack = broadcast_inputs sp argc stk0 @ map (planned_slot ext sp) [0..<nout sp],
          result = map (planned_result ext sp) [0..<nout sp],
          trace = tr0 @ alloc_events ext sp [0..<nout sp]\<rparr>"
    by simp_all
  obtain ev rc stk ctx where ak: "apply_kernel ext g kern sp
         (broadcast_inputs sp argc stk0 @ map (planned_slot ext sp) [0..<nout sp]) =
       (ev, rc, stk, ctx)"
    by (metis prod_cases4)
  show ?thesis
  proof (cases "rc < 0")
    case True
    with Inr st1 ak assms(1) have "tr = tr0 @ alloc_events ext sp [0..<nout sp] @ [ev]"
      "r = Inl (ndt_error ctx)"
      by (simp_all add: call_selected_def)
    with ok ak True apply_failed show ?thesis by blast
  next
    case False
    with Inr st1 ak assms(1) have
      "tr = trace (resolve_outputs ext sp argc [0..<nout sp]
               \<lparr>stack = stk, result = map (planned_result ext sp) [0..<nout sp],
                trace = tr0 @ alloc_events ext sp [0..<nout sp] @ [ev]\<rparr>) @ free_broadcast sp argc"
      "r = Inr (return_value sp (result (resolve_outputs ext sp argc [0..<nout sp]
               \<lparr>stack = stk, result = map (planned_result ext sp) [0..<nout sp],
                trace = tr0 @ alloc_events ext sp [0..<nout sp] @ [ev]\<rparr>)))"
      by (auto simp: call_selected_def Let_def)
    with ok ak False returned show ?thesis by blast
  qed
qed

section \<open>Paths of the call\<close>

lemma released_buffers_append:
  "released_buffers (xs @ ys) = released_buffers xs @ released_buffers ys"
  by (simp add: released_buffers_def)

lemma released_buffers_Cons:
  "released_buffers (e # tr) = released_by e @ released_buffers tr"
  by (simp add: released_buffers_def)

lemma allocated_objects_Cons:
  "allocated_objects (e # tr) = allocated_by e @ allocated_objects tr"
  by (simp add: allocated_objects_def)

lemma released_buffers_alloc_events: "released_buffers (alloc_events ext sp is) = []"
  by (induction "is") (simp_all add: alloc_events_Cons released_buffers_def)

lemma allocated_objects_append:
  "allocated_objects (xs @ ys) = allocated_objects xs @ allocated_objects ys"
  by (simp add: allocated_objects_def)

lemma allocated_objects_alloc_events:
  "\<forall>i\<in>set is. alloc_ok ext sp i \<Longrightarrow>
   allocated_objects (alloc_events ext sp is) =
     map (planned_result ext sp) (filter (\<lambda>i. ndt_is_concrete (out sp i)) is)"
  by (induction "is")
     (simp_all add: alloc_events_Cons allocated_objects_def alloc_ok_def planned_result_def)

lemma call_selected_alloc_fails:
  assumes "i < nout sp" and "\<forall>j<i. alloc_ok ext sp j" and "ndt_is_concrete (out sp i)"
    and "rb_xnd_empty_from_type ext i (out sp i) = NULL"
    and "argc + nout sp \<le> NDT_MAX_ARGS ext"
  shows "call_selected ext g kern sp argc stk0 tr0 =
           (tr0 @ alloc_events ext sp [0..<Suc i] @ [Ndt_apply_spec_clear],
            Inl (rb_eNoMemError ''could not allocate empty XND object.''))"
proof -
  have split: "[0..<nout sp] = [0..<i] @ i # [Suc i..<nout sp]"
    using assms(1) upt_add_eq_append [of 0 i "nout sp - i"] by (simp add: upt_conv_Cons)
  have pre: "\<forall>j\<in>set [0..<i]. alloc_ok ext sp j \<and> argc + j < NDT_MAX_ARGS ext"
    using assms(1,2,5) by simp
  have "plan_outputs ext sp argc [0..<nout sp]
          \<lparr>stack = broadcast_inputs sp argc stk0, result = [], trace = tr0\<rparr> =
        Inl (tr0 @ alloc_events ext sp ([0..<i] @ [i]) @ [Ndt_apply_spec_clear],
             rb_eNoMemError ''could not allocate empty XND object.'')"
    using plan_outputs_fail [OF pre assms(3,4), of "[Suc i..<nout sp]"
        "\<lparr>stack = broadcast_inputs sp argc stk0, result = [], trace = tr0\<rparr>"]
    by (simp add: split [symmetric])
  then show ?thesis by (simp add: call_selected_def)
qed

lemma call_selected_apply_fails:
  assumes "\<forall>i<nout sp. alloc_ok ext sp i"
    and "apply_kernel ext g kern sp
           (broadcast_inputs sp argc stk0 @ map (planned_slot ext sp) [0..<nout sp]) =
         (ev, rc, stk, ctx)"
    and "rc < 0"
    and "argc + nout sp \<le> NDT_MAX_ARGS ext"
  shows "call_selected ext g kern sp argc stk0 tr0 =
           (tr0 @ alloc_events ext sp [0..<nout sp] @ [ev], Inl (ndt_error ctx))"
proof -
  have "\<forall>i\<in>set [0..<nout sp]. alloc_ok ext sp i \<and> argc + i < NDT_MAX_ARGS ext"
    using assms(1,4) by simp
  from plan_outputs_ok [OF this,
      of "\<lparr>stack = broadcast_inputs sp argc stk0, result = [], trace = tr0\<rparr>"]
  show ?thesis using assms(2,3) by (simp add: call_selected_def)
qed

lemma selects_ex:
  "length argv + nout sp \<le> 128 \<Longrightarrow> \<forall>a\<in>set argv. rb_xnd_check_type (ex_extern sp fa rc fw) a \<Longrightarrow>
   selects (ex_extern sp fa rc fw) argv ex_self ex_kernel sp"
  by (simp add: selects_def selected_def ex_extern_def ex_self_def ex_globals_def ex_kernel_def)

lemma call_selected_prefix:
  "\<exists>rest. fst (call_selected ext g kern sp argc stk0 tr0) = tr0 @ rest"
proof (cases "plan_outputs ext sp argc [0..<nout sp]
                \<lparr>stack = broadcast_inputs sp argc stk0, result = [], trace = tr0\<rparr>")
  case (Inl p)
  obtain tr e where p: "p = (tr, e)" by (cases p)
  from plan_outputs_Inl_prefix [OF Inl [unfolded p]] obtain rest where "tr = tr0 @ rest"
    by auto
  with Inl p show ?thesis by (simp add: call_selected_def)
next
  case (Inr st1)
  from plan_outputs_Inr_prefix [OF Inr] obtain r1 where r1: "trace st1 = tr0 @ r1" by auto
  obtain ev rc stk ctx where ak: "apply_kernel ext g kern sp (stack st1) = (ev, rc, stk, ctx)"
    by (metis prod_cases4)
  obtain tl where tl: "trace (resolve_outputs ext sp argc [0..<nout sp]
       (st1\<lparr>stack := stk, trace := trace st1 @ [ev]\<rparr>)) = (trace st1 @ [ev]) @ tl"
    using resolve_outputs_trace [of ext sp argc "[0..<nout sp]"
        "st1\<lparr>stack := stk, trace := trace st1 @ [ev]\<rparr>"] by auto
  show ?thesis
    using Inr ak r1 tl by (simp add: call_selected_def Let_def)
qed

lemma set_broadcast_types_length:
  "length (set_broadcast_types sp is stk) = length stk"
  by (induction "is" arbitrary: stk) simp_all

lemma set_broadcast_types_nth:
  "distinct is \<Longrightarrow> j < length stk \<Longrightarrow>
   set_broadcast_types sp is stk ! j =
     (if j \<in> set is then (stk ! j)\<lparr>type := broadcast sp j\<rparr> else stk ! j)"
proof (induction "is" arbitrary: stk)
  case Nil
  then show ?case by simp
next
  case (Cons i "is")
  then show ?case by (cases "j = i") auto
qed

lemma broadcast_inputs_eq:
  "broadcast_inputs sp (length stk) stk =
     (if nbroadcast sp > 0
      then map (\<lambda>i. (stk ! i)\<lparr>type := broadcast sp i\<rparr>) [0..<length stk]
      else stk)"
  by (auto simp: broadcast_inputs_def set_broadcast_types_length set_broadcast_types_nth
      intro!: nth_equalityI)

lemma length_broadcast_inputs: "length (broadcast_inputs sp (length stk) stk) = length stk"
  by (simp add: broadcast_inputs_eq)

lemma alloc_events_mono:
  "set is \<subseteq> set js \<Longrightarrow> set (alloc_events ext sp is) \<subseteq> set (alloc_events ext sp js)"
  by (auto simp: alloc_events_def)

lemma apply_stack_alloc_events:
  "e \<in> set (alloc_events ext sp is) \<Longrightarrow> apply_stack e = None \<and> (\<forall>t. e \<noteq> Ndt_del t)"
  by (auto simp: alloc_events_def)

lemma apply_stack_resolve_event: "resolve_event sp is e \<Longrightarrow> apply_stack e = None"
  by (cases e) simp_all

lemma apply_stack_free_broadcast: "e \<in> set (free_broadcast sp n) \<Longrightarrow> apply_stack e = None"
  by (auto simp: free_broadcast_def split: if_splits)

lemma apply_kernel_event:
  "apply_stack (fst (apply_kernel ext g kern sp stk)) = Some stk \<and>
   (\<forall>t. fst (apply_kernel ext g kern sp stk) \<noteq> Ndt_del t)"
  by (simp add: apply_kernel_def)

lemma call_selected_events:
  assumes "call_selected ext g kern sp argc stk0 tr0 = (tr, r)" and "e \<in> set tr"
    and "argc + nout sp \<le> NDT_MAX_ARGS ext"
  shows "e \<in> set tr0 \<or> e \<in> set (alloc_events ext sp [0..<nout sp]) \<or>
         e = Ndt_apply_spec_clear \<or>
         e = fst (apply_kernel ext g kern sp
                    (broadcast_inputs sp argc stk0 @ map (planned_slot ext sp) [0..<nout sp])) \<or>
         resolve_event sp [0..<nout sp] e \<or> e \<in> set (free_broadcast sp argc)"
  using assms(1,3)
proof (cases rule: call_selected_cases)
  case (alloc_failed i)
  have "set (alloc_events ext sp [0..<Suc i]) \<subseteq> set (alloc_events ext sp [0..<nout sp])"
    using alloc_failed(1) by (intro alloc_events_mono) auto
  with alloc_failed(5) assms(2) show ?thesis by auto
next
  case (apply_failed ev rc stk ctx)
  with assms(2) show ?thesis by auto
next
  case (returned ev rc stk ctx st2)
  from assms(2) returned(5) have "e \<in> set (trace st2) \<or> e \<in> set (free_broadcast sp argc)"
    by auto
  then show ?thesis
  proof
    assume "e \<in> set (trace st2)"
    then have "e \<in> set (tr0 @ alloc_events ext sp [0..<nout sp] @ [ev]) \<or>
        resolve_event sp [0..<nout sp] e"
      using resolve_outputs_events [of e ext sp argc "[0..<nout sp]"
          "\<lparr>stack = stk, result = map (planned_result ext sp) [0..<nout sp],
            trace = tr0 @ alloc_events ext sp [0..<nout sp] @ [ev]\<rparr>"] returned(4)
      by simp
    with returned(2) show ?thesis by auto
  qed simp
qed

section \<open>The claims\<close>

text \<open>
  Claim C1. When wrapping the abstract output \<open>i\<close> fails, all abstract outputs from \<open>i\<close>
  on should be released and the error should surface. The code does not do so: with one
  input, four abstract outputs and a failure at the third (index 2, stack slot 3), the inner
  loop starts at \<open>k = 2+2\<close>, no buffer is passed to \<^verbatim>\<open>xnd_del_buffer\<close>, the fourth
  output is wrapped afterwards, and the call returns an array with a null pointer in it
  instead of raising.
\<close>

theorem wrap_failure_skips_pending:
  "wrapped_objects (fst (Gumath_GufuncObject_call wrap_scene ex_globals [Object 5] ex_self)) =
     [Object 301, Object 302, NULL, Object 304] \<and>
   released_buffers (fst (Gumath_GufuncObject_call wrap_scene ex_globals [Object 5] ex_self)) = [] \<and>
   snd (Gumath_GufuncObject_call wrap_scene ex_globals [Object 5] ex_self) =
     Inr (Array [Object 301, Object 302, NULL, Object 304])"
  by code_simp

text \<open>
  Claim C2, as amended. In a call that got past the selection and whose inputs and outputs
  fit into the local arrays (\<open>selects\<close>), when the allocation for the concrete output
  \<open>i\<close> fails and those before it succeeded, the call clears the spec and raises the
  no-memory error; its trace is
  the selection, the allocations up to and including the failed one, and the clearing of
  the spec. No kernel is applied and nothing is returned. The objects allocated before are
  not released by the call: no buffer is passed to \<^verbatim>\<open>xnd_del_buffer\<close>. They are Ruby
  objects, left to the garbage collector.
\<close>

theorem allocation_failure:
  assumes "selects ext argv self kern sp"
    and "i < nout sp"
    and "\<forall>j<i. alloc_ok ext sp j"
    and "ndt_is_concrete (out sp i)"
    and "rb_xnd_empty_from_type ext i (out sp i) = NULL"
  shows "Gumath_GufuncObject_call ext g argv self =
           (select_event ext argv self # alloc_events ext sp [0..<Suc i] @ [Ndt_apply_spec_clear],
            Inl (rb_eNoMemError ''could not allocate empty XND object.'')) \<and>
         allocated_objects (fst (Gumath_GufuncObject_call ext g argv self)) =
           map (planned_result ext sp) (filter (\<lambda>j. ndt_is_concrete (out sp j)) [0..<i]) \<and>
         released_buffers (fst (Gumath_GufuncObject_call ext g argv self)) = []"
proof -
  have c: "Gumath_GufuncObject_call ext g argv self =
           (select_event ext argv self # alloc_events ext sp [0..<Suc i] @ [Ndt_apply_spec_clear],
            Inl (rb_eNoMemError ''could not allocate empty XND object.''))"
    using call_of_selects [OF assms(1), of g]
      call_selected_alloc_fails [OF assms(2-5) selects_bound [OF assms(1)]]
    by simp
  have pre: "\<forall>j\<in>set [0..<i]. alloc_ok ext sp j" using assms(3) by simp
  have "allocated_objects (alloc_events ext sp [0..<Suc i]) =
          allocated_objects (alloc_events ext sp [0..<i])"
    using assms(4,5)
    by (simp add: alloc_events_append alloc_events_Cons allocated_objects_append
        allocated_objects_Cons) (simp add: allocated_objects_def)
  then have a: "allocated_objects (select_event ext argv self #
              alloc_events ext sp [0..<Suc i] @ [Ndt_apply_spec_clear]) =
           map (planned_result ext sp) (filter (\<lambda>j. ndt_is_concrete (out sp j)) [0..<i])"
    using allocated_objects_alloc_events [OF pre]
    by (simp only: allocated_objects_Cons allocated_objects_append)
       (simp add: allocated_objects_def select_event_def)
  have r: "released_buffers (select_event ext argv self # alloc_events ext sp [0..<Suc i] @
              [Ndt_apply_spec_clear]) = []"
    by (simp only: released_buffers_Cons released_buffers_append released_buffers_alloc_events)
       (simp add: released_buffers_def select_event_def)
  show ?thesis using c a r by simp
qed

theorem allocation_failure_witness:
  "selects alloc_scene [Object 5] ex_self ex_kernel (ex_spec [conc 1, conc 2] []) \<and>
   alloc_ok alloc_scene (ex_spec [conc 1, conc 2] []) 0 \<and>
   ndt_is_concrete (out (ex_spec [conc 1, conc 2] []) 1) \<and>
   rb_xnd_empty_from_type alloc_scene 1 (out (ex_spec [conc 1, conc 2] []) 1) = NULL \<and>
   Gumath_GufuncObject_call alloc_scene ex_globals [Object 5] ex_self =
     ([Gm_select (globals.table ex_globals) ''f'' [conc 5] [\<lparr>type = conc 5, ptr = 5\<rparr>],
       Rb_xnd_empty_from_type (conc 1) (Object 100),
       Rb_xnd_empty_from_type (conc 2) NULL,
       Ndt_apply_spec_clear],
      Inl (rb_eNoMemError ''could not allocate empty XND object.''))"
proof -
  let ?sp = "ex_spec [conc 1, conc 2] []"
  have h1: "selects alloc_scene [Object 5] ex_self ex_kernel ?sp"
    unfolding alloc_scene_def by (rule selects_ex) (simp_all add: ex_extern_def ex_spec_def)
  have h2: "1 < nout ?sp" by (simp add: ex_spec_def)
  have h3: "\<forall>j<1. alloc_ok alloc_scene ?sp j"
    by (simp add: alloc_ok_def alloc_scene_def ex_extern_def)
  have h4: "ndt_is_concrete (out ?sp 1)"
    by (simp add: ex_spec_def conc_def ndt_is_concrete_def)
  have h5: "rb_xnd_empty_from_type alloc_scene 1 (out ?sp 1) = NULL"
    by (simp add: alloc_scene_def ex_extern_def)
  have ev: "select_event alloc_scene [Object 5] ex_self # alloc_events alloc_scene ?sp [0..<Suc 1] =
      [Gm_select (globals.table ex_globals) ''f'' [conc 5] [\<lparr>type = conc 5, ptr = 5\<rparr>],
       Rb_xnd_empty_from_type (conc 1) (Object 100),
       Rb_xnd_empty_from_type (conc 2) NULL]"
    by (simp add: select_event_def inputs_def ex_self_def alloc_events_def ex_spec_def
        conc_def ndt_is_concrete_def alloc_scene_def ex_extern_def)
  from allocation_failure [OF h1 h2 h3 h4 h5, of ex_globals] ev h1 h3 h4 h5
  show ?thesis by simp
qed

text \<open>
  The claim as stated asks for the release of the buffers allocated before the failure. Here
  the second of two allocations fails: one object has been allocated, none is released.
\<close>

theorem allocation_failure_counterexample:
  "allocated_objects (fst (Gumath_GufuncObject_call alloc_scene ex_globals [Object 5] ex_self))
     = [Object 100] \<and>
   released_buffers (fst (Gumath_GufuncObject_call alloc_scene ex_globals [Object 5] ex_self)) = [] \<and>
   snd (Gumath_GufuncObject_call alloc_scene ex_globals [Object 5] ex_self)
     = Inl (rb_eNoMemError ''could not allocate empty XND object.'')"
  by code_simp

text \<open>
  Claim C3, as amended. In a call that got past the selection and whose inputs and outputs
  fit into the local arrays (\<open>selects\<close>), when the apply fails after every concrete
  output has been allocated, the call raises the library's error from the context of the apply and returns nothing;
  the objects allocated for the concrete outputs are not released by the call (none of
  their buffers is passed to \<^verbatim>\<open>xnd_del_buffer\<close>): they are Ruby objects, left to the
  garbage collector.
\<close>

theorem apply_failure:
  assumes "selects ext argv self kern sp"
    and "\<forall>i<nout sp. alloc_ok ext sp i"
    and "apply_kernel ext g kern sp (planned_stack ext sp argv) = (ev, rc, stk, ctx)"
    and "rc < 0"
  shows "snd (Gumath_GufuncObject_call ext g argv self) = Inl (ndt_error ctx) \<and>
         allocated_objects (fst (Gumath_GufuncObject_call ext g argv self)) =
           map (planned_result ext sp) (filter (\<lambda>i. ndt_is_concrete (out sp i)) [0..<nout sp]) \<and>
         (\<forall>v\<in>set (allocated_objects (fst (Gumath_GufuncObject_call ext g argv self))).
            rb_xnd_const_xnd ext v \<notin>
              set (released_buffers (fst (Gumath_GufuncObject_call ext g argv self))))"
proof -
  have c: "Gumath_GufuncObject_call ext g argv self =
           (select_event ext argv self # alloc_events ext sp [0..<nout sp] @ [ev],
            Inl (ndt_error ctx))"
    using call_of_selects [OF assms(1), of g]
      call_selected_apply_fails [OF assms(2) assms(3) [unfolded planned_stack_def] assms(4)
        selects_bound [OF assms(1)]]
    by simp
  have all: "\<forall>i\<in>set [0..<nout sp]. alloc_ok ext sp i" using assms(2) by simp
  have ev: "released_by ev = [] \<and> allocated_by ev = []"
    using assms(3) by (auto simp: apply_kernel_def split: if_splits)
  have a: "allocated_objects (select_event ext argv self # alloc_events ext sp [0..<nout sp] @ [ev]) =
           map (planned_result ext sp) (filter (\<lambda>i. ndt_is_concrete (out sp i)) [0..<nout sp])"
    using allocated_objects_alloc_events [OF all] ev
    by (simp only: allocated_objects_Cons allocated_objects_append)
       (simp add: allocated_objects_def select_event_def)
  have r: "released_buffers (select_event ext argv self # alloc_events ext sp [0..<nout sp] @ [ev]) = []"
    using ev
    by (simp only: released_buffers_Cons released_buffers_append released_buffers_alloc_events)
       (simp add: released_buffers_def select_event_def)
  show ?thesis using c a r by simp
qed

theorem apply_failure_witness:
  "selects apply_scene [Object 5] ex_self ex_kernel (ex_spec [conc 1, abst 2] []) \<and>
   alloc_ok apply_scene (ex_spec [conc 1, abst 2] []) 0 \<and>
   alloc_ok apply_scene (ex_spec [conc 1, abst 2] []) 1 \<and>
   fst (snd (apply_kernel apply_scene ex_globals ex_kernel (ex_spec [conc 1, abst 2] [])
     (planned_stack apply_scene (ex_spec [conc 1, abst 2] []) [Object 5]))) < 0 \<and>
   snd (Gumath_GufuncObject_call apply_scene ex_globals [Object 5] ex_self) = Inl (ndt_error ex_context) \<and>
   allocated_objects (fst (Gumath_GufuncObject_call apply_scene ex_globals [Object 5] ex_self)) =
     [Object 100]"
proof -
  let ?sp = "ex_spec [conc 1, abst 2] []"
  let ?X = "apply_kernel apply_scene ex_globals ex_kernel ?sp (planned_stack apply_scene ?sp [Object 5])"
  have h1: "selects apply_scene [Object 5] ex_self ex_kernel ?sp"
    unfolding apply_scene_def by (rule selects_ex) (simp_all add: ex_extern_def ex_spec_def)
  have h2: "\<forall>i<nout ?sp. alloc_ok apply_scene ?sp i"
    by (simp add: alloc_ok_def apply_scene_def ex_extern_def)
  have h3: "?X = (fst ?X, fst (snd ?X), fst (snd (snd ?X)), snd (snd (snd ?X)))" by simp
  have h4: "fst (snd ?X) < 0" by (simp add: apply_kernel_def apply_scene_def ex_extern_def)
  have c: "snd (snd (snd ?X)) = ex_context"
    by (simp add: apply_kernel_def apply_scene_def ex_extern_def)
  have p: "map (planned_result apply_scene ?sp)
             (filter (\<lambda>i. ndt_is_concrete (out ?sp i)) [0..<nout ?sp]) = [Object 100]"
    by (simp add: ex_spec_def upt_conv_Cons conc_def abst_def ndt_is_concrete_def
        planned_result_def apply_scene_def ex_extern_def)
  from apply_failure [OF h1 h2 h3 h4] c p h1 h2 h4
  show ?thesis by (simp add: ex_spec_def)
qed

text \<open>
  The claim as stated asks for the release of every output buffer allocated for the call.
  Here the apply fails after one allocation: one object has been allocated, none is released.
\<close>

theorem apply_failure_counterexample:
  "allocated_objects (fst (Gumath_GufuncObject_call apply_scene ex_globals [Object 5] ex_self))
     = [Object 100] \<and>
   released_buffers (fst (Gumath_GufuncObject_call apply_scene ex_globals [Object 5] ex_self)) = [] \<and>
   snd (Gumath_GufuncObject_call apply_scene ex_globals [Object 5] ex_self)
     = Inl (ndt_error ex_context)"
  by code_simp

text \<open>
  Claim C4. The spec of the call should be released on every exit path. On the path of a
  failed apply it is not: with one input and one broadcast type, the trace of the call is
  the selection and the apply, with neither \<^verbatim>\<open>ndt_apply_spec_clear\<close> nor
  \<^verbatim>\<open>ndt_del\<close> of the broadcast type. (The path of a failed allocation does clear the
  spec.)
\<close>

theorem apply_failure_keeps_spec:
  "Gumath_GufuncObject_call stale_scene ex_globals [Object 5] ex_self =
     ([Gm_select (globals.table ex_globals) ''f'' [conc 5] [\<lparr>type = conc 5, ptr = 5\<rparr>],
       Gm_apply_thread ex_kernel [\<lparr>type = conc 9, ptr = 5\<rparr>] 1 0 1],
      Inl (ndt_error ex_context))"
  by code_simp

text \<open>
  Claim C5. \<^verbatim>\<open>set_max_threads\<close> should reject a value below 1 with an error and store a
  value from 1 on. The function's body is empty: with \<^verbatim>\<open>max_threads = 1\<close>, setting 0
  raises nothing, and after setting 4 \<^verbatim>\<open>get_max_threads\<close> still answers 1.
\<close>

theorem set_max_threads_is_empty:
  "snd (Gumath_s_set_max_threads ex_globals Qnil (Fixnum 0)) = Inr None \<and>
   Gumath_s_get_max_threads ex_globals Qnil = Fixnum 1 \<and>
   snd (Gumath_s_set_max_threads ex_globals Qnil (Fixnum 4)) = Inr None \<and>
   Gumath_s_get_max_threads (fst (Gumath_s_set_max_threads ex_globals Qnil (Fixnum 4))) Qnil
     = Fixnum 1"
  by (simp add: Gumath_s_set_max_threads_def Gumath_s_get_max_threads_def ex_globals_def
      INT2NUM_def)

text \<open>
  Claim C6. A call with more arguments than \<^verbatim>\<open>NDT_MAX_ARGS\<close> raises the argument error
  "too many arguments." with an empty trace: the kernel table has not been consulted and no
  other library call has been made.
\<close>

theorem too_many_arguments:
  "length argv > NDT_MAX_ARGS ext \<Longrightarrow>
   Gumath_GufuncObject_call ext g argv self = ([], Inl (rb_eArgError ''too many arguments.''))"
  by (simp add: Gumath_GufuncObject_call_def)

theorem too_many_arguments_witness:
  "length (replicate 129 (Object 1)) > NDT_MAX_ARGS (ex_extern (ex_spec [] []) None 0 None) \<and>
   Gumath_GufuncObject_call (ex_extern (ex_spec [] []) None 0 None) ex_globals
     (replicate 129 (Object 1)) ex_self = ([], Inl (rb_eArgError ''too many arguments.''))"
  using too_many_arguments [of "ex_extern (ex_spec [] []) None 0 None" "replicate 129 (Object 1)"
      ex_globals ex_self]
  by (simp add: ex_extern_def)

text \<open>
  Claim C7. A call that returns should hand back as many buffers as the spec has outputs.
  The code does not always do so: when the wrapping of an abstract output fails, the call
  raises nothing and returns with a null pointer in the place of the buffer. With one input
  and a single abstract output (stack slot 1) whose wrapping fails, the call returns the null
  pointer itself, where one output should yield that one buffer.
\<close>

theorem wrap_failure_returns_null:
  "nout (ex_spec [abst 1] []) = 1 \<and>
   wrapped_objects (fst (Gumath_GufuncObject_call single_scene ex_globals [Object 5] ex_self)) =
     [NULL] \<and>
   snd (Gumath_GufuncObject_call single_scene ex_globals [Object 5] ex_self) = Inr NULL"
  by code_simp

text \<open>
  Claim C8. In a call that got past the selection and whose inputs and outputs fit into the
  local arrays (\<open>selects\<close>), the stack handed to the apply has, as its
  inputs, the arguments' buffers with their types replaced by the broadcast types when
  \<^verbatim>\<open>nbroadcast > 0\<close>, and the arguments' buffers as they are otherwise; when
  \<^verbatim>\<open>nbroadcast = 0\<close>, every type descriptor the call deletes is an abstract output type,
  so no broadcast descriptor is freed. A call that returns has applied the kernel.
\<close>

theorem broadcast_rewrite:
  assumes "selects ext argv self kern sp"
    and "Gumath_GufuncObject_call ext g argv self = (tr, r)"
  shows "(\<forall>e\<in>set tr. \<forall>stk. apply_stack e = Some stk \<longrightarrow>
            take (length argv) stk =
              (if nbroadcast sp > 0
               then map (\<lambda>i. (inputs ext argv ! i)\<lparr>type := broadcast sp i\<rparr>) [0..<length argv]
               else inputs ext argv)) \<and>
         (nbroadcast sp = 0 \<longrightarrow>
            (\<forall>t. Ndt_del t \<in> set tr \<longrightarrow> (\<exists>i<nout sp. ndt_is_abstract (out sp i) \<and> t = out sp i))) \<and>
         (\<forall>v. r = Inr v \<longrightarrow> (\<exists>e\<in>set tr. apply_stack e \<noteq> None))"
proof -
  let ?stk0 = "inputs ext argv"
  let ?ps = "broadcast_inputs sp (length argv) ?stk0 @ map (planned_slot ext sp) [0..<nout sp]"
  have len: "length ?stk0 = length argv" by (simp add: inputs_def)
  from assms have cs: "call_selected ext g kern sp (length argv) ?stk0
      [select_event ext argv self] = (tr, r)"
    using call_of_selects by simp
  have src: "e \<in> set tr \<Longrightarrow>
      e = select_event ext argv self \<or> e \<in> set (alloc_events ext sp [0..<nout sp]) \<or>
      e = Ndt_apply_spec_clear \<or> e = fst (apply_kernel ext g kern sp ?ps) \<or>
      resolve_event sp [0..<nout sp] e \<or> e \<in> set (free_broadcast sp (length argv))" for e
    using call_selected_events [OF cs _ selects_bound [OF assms(1)], of e] by simp
  have tk: "take (length argv) ?ps =
      (if nbroadcast sp > 0
       then map (\<lambda>i. (?stk0 ! i)\<lparr>type := broadcast sp i\<rparr>) [0..<length argv]
       else ?stk0)"
    using broadcast_inputs_eq [of sp ?stk0] length_broadcast_inputs [of sp ?stk0] len by simp
  have p1: "\<forall>e\<in>set tr. \<forall>stk. apply_stack e = Some stk \<longrightarrow>
            take (length argv) stk =
              (if nbroadcast sp > 0
               then map (\<lambda>i. (?stk0 ! i)\<lparr>type := broadcast sp i\<rparr>) [0..<length argv]
               else ?stk0)"
  proof (intro ballI allI impI)
    fix e stk assume e: "e \<in> set tr" and a: "apply_stack e = Some stk"
    from src [OF e] a have "e = fst (apply_kernel ext g kern sp ?ps)"
      using apply_stack_alloc_events [of e ext sp "[0..<nout sp]"]
        apply_stack_resolve_event [of sp "[0..<nout sp]" e]
        apply_stack_free_broadcast [of e sp "length argv"]
      by (auto simp: select_event_def)
    with a have "stk = ?ps" using apply_kernel_event [of ext g kern sp ?ps] by simp
    with tk show "take (length argv) stk =
              (if nbroadcast sp > 0
               then map (\<lambda>i. (?stk0 ! i)\<lparr>type := broadcast sp i\<rparr>) [0..<length argv]
               else ?stk0)" by simp
  qed
  have p2: "nbroadcast sp = 0 \<longrightarrow>
      (\<forall>t. Ndt_del t \<in> set tr \<longrightarrow> (\<exists>i<nout sp. ndt_is_abstract (out sp i) \<and> t = out sp i))"
  proof (intro impI allI)
    fix t assume nb: "nbroadcast sp = 0" and d: "Ndt_del t \<in> set tr"
    from src [OF d] consider
        (sel) "Ndt_del t = select_event ext argv self"
      | (alloc) "Ndt_del t \<in> set (alloc_events ext sp [0..<nout sp])"
      | (clear) "Ndt_del t = Ndt_apply_spec_clear"
      | (app) "Ndt_del t = fst (apply_kernel ext g kern sp ?ps)"
      | (res) "resolve_event sp [0..<nout sp] (Ndt_del t)"
      | (free) "Ndt_del t \<in> set (free_broadcast sp (length argv))"
      by blast
    then have "resolve_event sp [0..<nout sp] (Ndt_del t)"
    proof cases
      case sel
      then show ?thesis by (simp add: select_event_def)
    next
      case alloc
      then show ?thesis using apply_stack_alloc_events by blast
    next
      case clear
      then show ?thesis by simp
    next
      case app
      then show ?thesis using apply_kernel_event [of ext g kern sp ?ps] by metis
    next
      case res
      then show ?thesis .
    next
      case free
      with nb show ?thesis by (simp add: free_broadcast_def)
    qed
    then show "\<exists>i<nout sp. ndt_is_abstract (out sp i) \<and> t = out sp i" by auto
  qed
  have p3: "\<forall>v. r = Inr v \<longrightarrow> (\<exists>e\<in>set tr. apply_stack e \<noteq> None)"
  proof (intro allI impI)
    fix v assume r: "r = Inr v"
    from cs selects_bound [OF assms(1)] show "\<exists>e\<in>set tr. apply_stack e \<noteq> None"
    proof (cases rule: call_selected_cases)
      case (alloc_failed i)
      with r show ?thesis by simp
    next
      case (apply_failed ev rc stk ctx)
      with r show ?thesis by simp
    next
      case (returned ev rc stk ctx st2)
      have "ev \<in> set (trace st2)"
        using resolve_outputs_trace_mono [of ev
            "\<lparr>stack = stk, result = map (planned_result ext sp) [0..<nout sp],
              trace = [select_event ext argv self] @ alloc_events ext sp [0..<nout sp] @ [ev]\<rparr>"
            ext sp "length argv" "[0..<nout sp]"] returned(4)
        by simp
      moreover have "apply_stack ev \<noteq> None"
        using returned(2) apply_kernel_event [of ext g kern sp ?ps] by simp
      ultimately show ?thesis using returned(5) by auto
    qed
  qed
  from p1 p2 p3 show ?thesis by blast
qed

theorem broadcast_rewrite_witness:
  "selects plain_scene [Object 5] ex_self ex_kernel (ex_spec [conc 1, abst 2] []) \<and>
   (\<exists>e stk. e \<in> set (fst (Gumath_GufuncObject_call plain_scene ex_globals [Object 5] ex_self)) \<and>
      apply_stack e = Some stk \<and> take 1 stk = [\<lparr>type = conc 5, ptr = 5\<rparr>]) \<and>
   Ndt_del (abst 2) \<in> set (fst (Gumath_GufuncObject_call plain_scene ex_globals [Object 5] ex_self)) \<and>
   (\<exists>i<nout (ex_spec [conc 1, abst 2] []).
      ndt_is_abstract (out (ex_spec [conc 1, abst 2] []) i) \<and>
      abst 2 = out (ex_spec [conc 1, abst 2] []) i) \<and>
   selects broadcast_scene [Object 5] ex_self ex_kernel (ex_spec [conc 1, abst 2] [conc 9]) \<and>
   (\<exists>e stk. e \<in> set (fst (Gumath_GufuncObject_call broadcast_scene ex_globals [Object 5] ex_self)) \<and>
      apply_stack e = Some stk \<and> take 1 stk = [\<lparr>type = conc 9, ptr = 5\<rparr>])"
proof -
  let ?spA = "ex_spec [conc 1, abst 2] []"
  let ?spB = "ex_spec [conc 1, abst 2] [conc 9]"
  let ?A = "Gumath_GufuncObject_call plain_scene ex_globals [Object 5] ex_self"
  let ?B = "Gumath_GufuncObject_call broadcast_scene ex_globals [Object 5] ex_self"
  have a1: "selects plain_scene [Object 5] ex_self ex_kernel ?spA"
    unfolding plain_scene_def by (rule selects_ex) (simp_all add: ex_extern_def ex_spec_def)
  have b1: "selects broadcast_scene [Object 5] ex_self ex_kernel ?spB"
    unfolding broadcast_scene_def by (rule selects_ex) (simp_all add: ex_extern_def ex_spec_def)
  have a2: "?A = (fst ?A, snd ?A)" and b2: "?B = (fst ?B, snd ?B)" by simp_all
  have ra: "snd ?A = Inr (Array [Object 100, Object 302])" by code_simp
  have rb: "snd ?B = Inr (Array [Object 100, Object 302])" by code_simp
  have del: "Ndt_del (abst 2) \<in> set (fst ?A)" by code_simp
  have ia: "inputs plain_scene [Object 5] = [\<lparr>type = conc 5, ptr = 5\<rparr>]"
    by (simp add: inputs_def plain_scene_def ex_extern_def)
  have ib: "map (\<lambda>i. (inputs broadcast_scene [Object 5] ! i)\<lparr>type := broadcast ?spB i\<rparr>)
              [0..<length [Object 5]] = [\<lparr>type = conc 9, ptr = 5\<rparr>]"
    by (simp add: inputs_def broadcast_scene_def ex_extern_def ex_spec_def)
  have na: "nbroadcast ?spA = 0" and nb: "nbroadcast ?spB > 0" by (simp_all add: ex_spec_def)
  note A = broadcast_rewrite [OF a1 a2]
  note B = broadcast_rewrite [OF b1 b2]
  from A ra obtain e where e: "e \<in> set (fst ?A)" "apply_stack e \<noteq> None" by blast
  then obtain stk where stk: "apply_stack e = Some stk" by auto
  with A e na ia have "take 1 stk = [\<lparr>type = conc 5, ptr = 5\<rparr>]" by force
  with e stk have ca: "\<exists>e stk. e \<in> set (fst ?A) \<and> apply_stack e = Some stk \<and>
      take 1 stk = [\<lparr>type = conc 5, ptr = 5\<rparr>]" by blast
  from A na del have cd: "\<exists>i<nout ?spA. ndt_is_abstract (out ?spA i) \<and> abst 2 = out ?spA i"
    by blast
  from B rb obtain e' where e': "e' \<in> set (fst ?B)" "apply_stack e' \<noteq> None" by blast
  then obtain stk' where stk': "apply_stack e' = Some stk'" by auto
  with B e' nb ib have "take 1 stk' = [\<lparr>type = conc 9, ptr = 5\<rparr>]" by force
  with e' stk' have cb: "\<exists>e stk. e \<in> set (fst ?B) \<and> apply_stack e = Some stk \<and>
      take 1 stk = [\<lparr>type = conc 9, ptr = 5\<rparr>]" by blast
  from a1 ca del cd b1 cb show ?thesis by blast
qed

text \<open>
  Claim C9. Registering a kernel should either append an entry to the table or fail with an
  error. \<^verbatim>\<open>unsafe_add_kernel\<close> has an empty body: on an empty table, called with three
  arguments, it raises nothing and leaves the table empty.
\<close>

theorem unsafe_add_kernel_is_empty:
  "Gumath_s_unsafe_add_kernel \<lparr>globals.table = [], max_threads = 1\<rparr>
     [Object 1, Object 2, Object 3] Qnil =
   (\<lparr>globals.table = [], max_threads = 1\<rparr>, Inr None)"
  by (simp add: Gumath_s_unsafe_add_kernel_def)

text \<open>
  Claim C10, as amended. Within the arity bound, a call with an argument that is not an XND
  object raises the argument error "Args must be XND." with an empty trace: no selection,
  no allocation, no other library call. When every argument is an XND object, the first
  event of the call is the selection, with the types of the arguments in argument order.
\<close>

theorem argument_check:
  assumes "length argv \<le> NDT_MAX_ARGS ext"
  shows "((\<exists>a\<in>set argv. \<not> rb_xnd_check_type ext a) \<longrightarrow>
            Gumath_GufuncObject_call ext g argv self =
              ([], Inl (rb_eArgError ''Args must be XND.''))) \<and>
         ((\<forall>a\<in>set argv. rb_xnd_check_type ext a) \<longrightarrow>
            (\<exists>rest r. Gumath_GufuncObject_call ext g argv self =
               (Gm_select (GufuncObject.table self) (GufuncObject.name self)
                  (map (\<lambda>a. type (rb_xnd_const_xnd ext a)) argv)
                  (map (rb_xnd_const_xnd ext) argv) # rest, r)))"
proof (intro conjI impI)
  assume "\<exists>a\<in>set argv. \<not> rb_xnd_check_type ext a"
  then have "load_args ext argv = None" by (rule load_args_None)
  with assms show "Gumath_GufuncObject_call ext g argv self =
      ([], Inl (rb_eArgError ''Args must be XND.''))"
    by (simp add: Gumath_GufuncObject_call_def)
next
  assume "\<forall>a\<in>set argv. rb_xnd_check_type ext a"
  then have la: "load_args ext argv = Some (inputs ext argv)" by (rule load_args_Some)
  let ?ev = "Gm_select (GufuncObject.table self) (GufuncObject.name self)
               (map type (inputs ext argv)) (inputs ext argv)"
  obtain kern sp ctx where sel:
    "gm_select ext (GufuncObject.table self) (GufuncObject.name self)
       (map type (inputs ext argv)) (inputs ext argv) = (kern, sp, ctx)"
    by (metis prod_cases3)
  obtain rest where rest:
    "fst (call_selected ext g kern sp (length argv) (inputs ext argv) [?ev]) = [?ev] @ rest"
    using call_selected_prefix by blast
  have "\<exists>rest r. Gumath_GufuncObject_call ext g argv self = (?ev # rest, r)"
  proof (cases "kernel_set kern = None")
    case True
    with assms la sel show ?thesis
      by (simp add: Gumath_GufuncObject_call_def)
  next
    case False
    with assms la sel have "Gumath_GufuncObject_call ext g argv self =
        call_selected ext g kern sp (length argv) (inputs ext argv) [?ev]"
      by (auto simp: Gumath_GufuncObject_call_def Let_def)
    with rest show ?thesis
      by (metis append_Cons append_Nil prod.collapse)
  qed
  then show "\<exists>rest r. Gumath_GufuncObject_call ext g argv self =
               (Gm_select (GufuncObject.table self) (GufuncObject.name self)
                  (map (\<lambda>a. type (rb_xnd_const_xnd ext a)) argv)
                  (map (rb_xnd_const_xnd ext) argv) # rest, r)"
    by (simp add: inputs_def comp_def)
qed

theorem argument_check_witness:
  "length [Object 5, Qnil] \<le> NDT_MAX_ARGS apply_scene \<and>
   \<not> rb_xnd_check_type apply_scene Qnil \<and>
   Gumath_GufuncObject_call apply_scene ex_globals [Object 5, Qnil] ex_self =
     ([], Inl (rb_eArgError ''Args must be XND.'')) \<and>
   length [Object 5, Object 6] \<le> NDT_MAX_ARGS apply_scene \<and>
   rb_xnd_check_type apply_scene (Object 5) \<and> rb_xnd_check_type apply_scene (Object 6) \<and>
   hd (fst (Gumath_GufuncObject_call apply_scene ex_globals [Object 5, Object 6] ex_self)) =
     Gm_select (globals.table ex_globals) ''f'' [conc 5, conc 6]
       [\<lparr>type = conc 5, ptr = 5\<rparr>, \<lparr>type = conc 6, ptr = 6\<rparr>]"
proof -
  have l1: "length [Object 5, Qnil] \<le> NDT_MAX_ARGS apply_scene"
    and l2: "length [Object 5, Object 6] \<le> NDT_MAX_ARGS apply_scene"
    by (simp_all add: apply_scene_def ex_extern_def)
  have bad: "\<not> rb_xnd_check_type apply_scene Qnil"
    and good: "rb_xnd_check_type apply_scene (Object 5)" "rb_xnd_check_type apply_scene (Object 6)"
    by (simp_all add: apply_scene_def ex_extern_def)
  have cx: "rb_xnd_const_xnd apply_scene (Object 5) = \<lparr>type = conc 5, ptr = 5\<rparr>"
    "rb_xnd_const_xnd apply_scene (Object 6) = \<lparr>type = conc 6, ptr = 6\<rparr>"
    by (simp_all add: apply_scene_def ex_extern_def)
  from argument_check [OF l1, of ex_globals ex_self] bad
  have a: "Gumath_GufuncObject_call apply_scene ex_globals [Object 5, Qnil] ex_self =
     ([], Inl (rb_eArgError ''Args must be XND.''))" by simp
  from argument_check [OF l2, of ex_globals ex_self] good cx
  have b: "hd (fst (Gumath_GufuncObject_call apply_scene ex_globals [Object 5, Object 6] ex_self)) =
     Gm_select (globals.table ex_globals) ''f'' [conc 5, conc 6]
       [\<lparr>type = conc 5, ptr = 5\<rparr>, \<lparr>type = conc 6, ptr = 6\<rparr>]"
    by (auto simp: ex_self_def)
  show ?thesis using l1 l2 bad good a b by simp
qed

text \<open>
  The claim as stated has no arity bound. A call with 129 arguments, none of them an XND
  object, is stopped by the arity test, which comes first: the error is "too many
  arguments.", not "Args must be XND.".
\<close>

theorem argument_check_counterexample:
  "\<not> rb_xnd_check_type apply_scene (replicate 129 Qnil ! 0) \<and>
   Gumath_GufuncObject_call apply_scene ex_globals (replicate 129 Qnil) ex_self =
     ([], Inl (rb_eArgError ''too many arguments.'')) \<and>
   rb_eArgError ''too many arguments.'' \<noteq> rb_eArgError ''Args must be XND.''"
  by (simp add: Gumath_GufuncObject_call_def apply_scene_def ex_extern_def)

end
